theory Spec2Isabelle
  imports Complex_Main "HOL-Library.AList"
begin

section \<open>Python values and exceptions\<close>

text \<open>
  A Python \<open>str\<close> is a sequence of code points; the JSON decoder also produces lone
  surrogates (from an escape such as \<open>\ud800\<close>), which the UTF-8 codec refuses to
  write. Strings that come out of a JSON document are therefore lists of code points.
  Names of SQL rows, environment values and URLs are byte strings (\<open>string\<close>).
\<close>

type_synonym codepoint = nat
type_synonym pystr = "codepoint list"

definition str :: "string \<Rightarrow> pystr" where
  "str s = map of_char s"

datatype pyfloat = Finite real | PosInf | NegInf | NaN

datatype py_exception =
    FileExistsError
  | JSONDecodeError
  | UnicodeEncodeError
  | DatabaseError
  | OperationalError
  | IntegrityError
  | ValueError
  | URLError
  | HTTPError nat
  | TimeoutError

text \<open>A call either returns (\<open>Inr\<close>) or raises (\<open>Inl\<close>); statements run in sequence
  until the first one raises.\<close>

definition then_do :: "py_exception + 'a \<Rightarrow> ('a \<Rightarrow> py_exception + 'b) \<Rightarrow> py_exception + 'b" where
  "then_do r f = (case r of Inl e \<Rightarrow> Inl e | Inr x \<Rightarrow> f x)"

section \<open>The settings document (docker\_entry.py, init\_settings)\<close>

text \<open>What \<open>json.load\<close> returns: a \<open>dict\<close> keeps its keys in insertion order, so an
  object is an association list.\<close>

datatype json =
    JNull
  | JBool bool
  | JInt int
  | JFloat pyfloat
  | JStr pystr
  | JArr "json list"
  | JObj "(pystr \<times> json) list"

text \<open>
  The text of \<open>settings.json\<close> is identified with what \<open>json.load\<close> does on it: it
  raises (invalid UTF-8, invalid JSON, ...) or returns a value. \<open>json.dump\<close> writes a
  text that loads back to the value dumped.
\<close>

datatype content = Unparsable | Parses json

definition json_load :: "content \<Rightarrow> py_exception + json" where
  "json_load c = (case c of Unparsable \<Rightarrow> Inl JSONDecodeError | Parses j \<Rightarrow> Inr j)"

definition is_surrogate :: "codepoint \<Rightarrow> bool" where
  "is_surrogate c = (0xD800 \<le> c \<and> c \<le> 0xDFFF)"

definition utf8_encodable :: "pystr \<Rightarrow> bool" where
  "utf8_encodable s = (\<not> list_ex is_surrogate s)"

text \<open>The file is opened with \<open>encoding="utf-8"\<close> and dumped with
  \<open>ensure_ascii=False\<close>: every string of the document goes through the codec as it is.\<close>

fun writable :: "json \<Rightarrow> bool" where
  "writable (JStr s) = utf8_encodable s"
| "writable (JArr xs) = list_all writable xs"
| "writable (JObj kvs) = list_all (\<lambda>(k, v). utf8_encodable k \<and> writable v) kvs"
| "writable _ = True"

definition json_dump :: "json \<Rightarrow> py_exception + content" where
  "json_dump j = (if writable j then Inr (Parses j) else Inl UnicodeEncodeError)"

section \<open>The relational store (docker\_entry.py, init\_database)\<close>

text \<open>
  A table that exists has the shape its \<open>CREATE TABLE\<close> statement gives it: rows keyed
  by the primary key. \<open>None\<close> is a table that does not exist.
\<close>

record database =
  config_data :: "(string \<rightharpoonup> int) option"
  download_data :: "string set option"
  mapping_data :: "(string \<rightharpoonup> string \<times> string) option"
  option_data :: "(string \<rightharpoonup> string) option"

datatype db_file = NoFile | NotADatabase | Database database

text \<open>The volume \<open>/app/Volume\<close>: its two files.\<close>

record volume =
  settings_json :: "content option"
  downloader_db :: db_file

datatype path_state = NoEntry | NotADirectory | Directory volume

definition ensure_volume :: "path_state \<Rightarrow> py_exception + volume" where
  "ensure_volume p =
     (case p of
        NoEntry \<Rightarrow> Inr \<lparr>settings_json = None, downloader_db = NoFile\<rparr>
      | NotADirectory \<Rightarrow> Inl FileExistsError
      | Directory vol \<Rightarrow> Inr vol)"

definition init_settings :: "volume \<Rightarrow> py_exception + volume" where
  "init_settings vol =
     (let data = (case settings_json vol of
                    Some c \<Rightarrow>
                      (case json_load c of
                         Inr (JObj d) \<Rightarrow> d
                       | Inr _ \<Rightarrow> []
                       | Inl _ \<Rightarrow> [])
                  | None \<Rightarrow> []);
          data = AList.update (str ''run_command'') (JStr (str ''7'')) data
      in then_do (json_dump (JObj data))
           (\<lambda>c. Inr (vol\<lparr>settings_json := Some c\<rparr>)))"

text \<open>Reading a key of the persisted settings document.\<close>

definition settings_lookup :: "volume \<Rightarrow> pystr \<Rightarrow> json option" where
  "settings_lookup vol k =
     (case settings_json vol of
        Some (Parses (JObj d)) \<Rightarrow> map_of d k
      | _ \<Rightarrow> None)"

subsection \<open>SQL statements\<close>

definition create_table_if_not_exists :: "'t \<Rightarrow> 't option \<Rightarrow> 't option" where
  "create_table_if_not_exists no_rows t = (case t of None \<Rightarrow> Some no_rows | Some rows \<Rightarrow> Some rows)"

text \<open>\<open>OR IGNORE\<close> skips the row on a primary-key conflict and on a failed \<open>CHECK\<close>;
  \<open>OR REPLACE\<close> replaces the row on a primary-key conflict and aborts on a failed
  \<open>CHECK\<close>.\<close>

definition insert_or_ignore :: "('v \<Rightarrow> bool) \<Rightarrow> 'k \<Rightarrow> 'v \<Rightarrow> ('k \<rightharpoonup> 'v) \<Rightarrow> ('k \<rightharpoonup> 'v)" where
  "insert_or_ignore chk k v rows =
     (if \<not> chk v then rows
      else case rows k of Some _ \<Rightarrow> rows | None \<Rightarrow> rows(k \<mapsto> v))"

definition insert_or_replace :: "('v \<Rightarrow> bool) \<Rightarrow> 'k \<Rightarrow> 'v \<Rightarrow> ('k \<rightharpoonup> 'v) \<Rightarrow> py_exception + ('k \<rightharpoonup> 'v)" where
  "insert_or_replace chk k v rows =
     (if \<not> chk v then Inl IntegrityError else Inr (rows(k \<mapsto> v)))"

definition value_check :: "int \<Rightarrow> bool" where
  "value_check v = (v = 0 \<or> v = 1)"

definition no_check :: "string \<Rightarrow> bool" where
  "no_check v = True"

definition config_insert_or_ignore :: "string \<Rightarrow> int \<Rightarrow> database \<Rightarrow> py_exception + database" where
  "config_insert_or_ignore name v db =
     (case config_data db of
        None \<Rightarrow> Inl OperationalError
      | Some rows \<Rightarrow> Inr (db\<lparr>config_data := Some (insert_or_ignore value_check name v rows)\<rparr>))"

definition config_insert_or_replace :: "string \<Rightarrow> int \<Rightarrow> database \<Rightarrow> py_exception + database" where
  "config_insert_or_replace name v db =
     (case config_data db of
        None \<Rightarrow> Inl OperationalError
      | Some rows \<Rightarrow>
          then_do (insert_or_replace value_check name v rows)
            (\<lambda>rows'. Inr (db\<lparr>config_data := Some rows'\<rparr>)))"

definition option_insert_or_ignore :: "string \<Rightarrow> string \<Rightarrow> database \<Rightarrow> py_exception + database" where
  "option_insert_or_ignore name v db =
     (case option_data db of
        None \<Rightarrow> Inl OperationalError
      | Some rows \<Rightarrow> Inr (db\<lparr>option_data := Some (insert_or_ignore no_check name v rows)\<rparr>))"

definition option_insert_or_replace :: "string \<Rightarrow> string \<Rightarrow> database \<Rightarrow> py_exception + database" where
  "option_insert_or_replace name v db =
     (case option_data db of
        None \<Rightarrow> Inl OperationalError
      | Some rows \<Rightarrow>
          then_do (insert_or_replace no_check name v rows)
            (\<lambda>rows'. Inr (db\<lparr>option_data := Some rows'\<rparr>)))"

text \<open>\<open>sqlite3.connect\<close> creates the file when it is missing; a file that is not a
  database makes the first statement raise.\<close>

definition connect :: "db_file \<Rightarrow> py_exception + database" where
  "connect f =
     (case f of
        NoFile \<Rightarrow> Inr \<lparr>config_data = None, download_data = None,
                        mapping_data = None, option_data = None\<rparr>
      | NotADatabase \<Rightarrow> Inl DatabaseError
      | Database db \<Rightarrow> Inr db)"

definition executescript :: "database \<Rightarrow> database" where
  "executescript db =
     db\<lparr>config_data := create_table_if_not_exists Map.empty (config_data db),
        download_data := create_table_if_not_exists {} (download_data db),
        mapping_data := create_table_if_not_exists Map.empty (mapping_data db),
        option_data := create_table_if_not_exists Map.empty (option_data db)\<rparr>"

definition init_database :: "volume \<Rightarrow> py_exception + volume" where
  "init_database vol =
     then_do (connect (downloader_db vol)) (\<lambda>db.
     then_do (config_insert_or_ignore ''Record'' 1 (executescript db)) (\<lambda>db.
     then_do (config_insert_or_ignore ''Logger'' 0 db) (\<lambda>db.
     then_do (config_insert_or_replace ''Disclaimer'' 1 db) (\<lambda>db.
     then_do (option_insert_or_ignore ''Language'' ''zh_CN'' db) (\<lambda>db.
     then_do (option_insert_or_replace ''Language'' ''zh_CN'' db) (\<lambda>db.
     Inr (vol\<lparr>downloader_db := Database db\<rparr>)))))))"

text \<open>Reading a row of the persisted store.\<close>

definition config_lookup :: "volume \<Rightarrow> string \<Rightarrow> int option" where
  "config_lookup vol name =
     (case downloader_db vol of
        Database db \<Rightarrow> (case config_data db of Some rows \<Rightarrow> rows name | None \<Rightarrow> None)
      | _ \<Rightarrow> None)"

definition option_lookup :: "volume \<Rightarrow> string \<Rightarrow> string option" where
  "option_lookup vol name =
     (case downloader_db vol of
        Database db \<Rightarrow> (case option_data db of Some rows \<Rightarrow> rows name | None \<Rightarrow> None)
      | _ \<Rightarrow> None)"

subsection \<open>The boot sequence (docker\_entry.py, main)\<close>

text \<open>\<open>os.execvp(file, args)\<close> asks the system to replace the process image; what the
  system does with the request is outside the program.\<close>

datatype exec_call = Execvp (exec_file: string) (exec_args: "string list")

text \<open>The three steps that \<open>main\<close> runs before the handoff, as one function of the file
  system.\<close>

definition bootstrap :: "path_state \<Rightarrow> py_exception + path_state" where
  "bootstrap p =
     then_do (ensure_volume p) (\<lambda>vol.
     then_do (init_settings vol) (\<lambda>vol.
     then_do (init_database vol) (\<lambda>vol.
     Inr (Directory vol))))"

definition main :: "path_state \<Rightarrow> py_exception + path_state \<times> exec_call" where
  "main p =
     then_do (ensure_volume p) (\<lambda>vol.
     then_do (init_settings vol) (\<lambda>vol.
     then_do (init_database vol) (\<lambda>vol.
     Inr (Directory vol, Execvp ''python'' [''python'', ''api_main.py'']))))"

section \<open>The health probe (healthcheck.py)\<close>

text \<open>
  \<open>urllib\<close> is not part of the repository: the probe is given the two calls it makes.
  \<open>Request\<close> is the constructor (it returns the request, here its URL, or raises);
  \<open>urlopen\<close> performs the request and returns the status of the response or raises
  (\<open>HTTPError\<close> for a 4xx or 5xx answer, \<open>URLError\<close>, a timeout, ...). Every exception
  of \<open>py_exception\<close> is a subclass of \<open>Exception\<close>, so \<open>except Exception\<close> catches
  all of them; \<open>KeyboardInterrupt\<close> and \<open>SystemExit\<close> are not represented.
\<close>

record urllib =
  Request :: "string \<Rightarrow> py_exception + string"
  urlopen :: "string \<Rightarrow> pyfloat \<Rightarrow> py_exception + nat"

definition check :: "urllib \<Rightarrow> string \<Rightarrow> pyfloat \<Rightarrow> py_exception + int" where
  "check lib url timeout =
     then_do (Request lib url) (\<lambda>req.
       case urlopen lib req timeout of
         Inr status \<Rightarrow> Inr (if status = 200 then 0 else 1)
       | Inl _ \<Rightarrow> Inr 1)"

type_synonym environ = "string \<rightharpoonup> string"

definition getenv :: "environ \<Rightarrow> string \<Rightarrow> string \<Rightarrow> string" where
  "getenv env key dflt = (case env key of None \<Rightarrow> dflt | Some v \<Rightarrow> v)"

text \<open>The builtins \<open>float\<close> and \<open>int\<close> are parameters too: \<open>Inl ValueError\<close> where the
  builtin rejects the string.\<close>

definition healthcheck_url :: "environ \<Rightarrow> string" where
  "healthcheck_url env =
     (let port = getenv env ''PORT'' ''5555''
      in ''http://localhost:'' @ port @ ''/health'')"

definition healthcheck_timeout :: "(string \<Rightarrow> py_exception + pyfloat) \<Rightarrow> environ \<Rightarrow> pyfloat" where
  "healthcheck_timeout float_of_str env =
     (let timeout_env = getenv env ''HEALTHCHECK_TIMEOUT'' ''2''
      in case float_of_str timeout_env of
           Inr timeout \<Rightarrow> timeout
         | Inl _ \<Rightarrow> Finite 2)"

text \<open>\<open>sys.exit(check(url, timeout))\<close>: \<open>Inr\<close> is the exit status.\<close>

definition healthcheck_main ::
    "urllib \<Rightarrow> (string \<Rightarrow> py_exception + pyfloat) \<Rightarrow> environ \<Rightarrow> py_exception + int" where
  "healthcheck_main lib float_of_str env =
     check lib (healthcheck_url env) (healthcheck_timeout float_of_str env)"

section \<open>The service port (api\_main.py, start\_api\_only)\<close>

text \<open>
  \<open>port = int(os.getenv("PORT", SERVER_PORT))\<close>. The constant \<open>SERVER_PORT\<close> of
  \<open>src.custom\<close> is a parameter: an integer, which \<open>os.getenv\<close> hands back as it is when
  the variable is unset and which \<open>int\<close> returns unchanged. The function below is the
  value bound to \<open>port\<close>; the application objects around that line are not modelled.
\<close>

definition start_api_only_port ::
    "(string \<Rightarrow> py_exception + int) \<Rightarrow> int \<Rightarrow> environ \<Rightarrow> py_exception + int" where
  "start_api_only_port int_of_str SERVER_PORT env =
     (case env ''PORT'' of
        None \<Rightarrow> Inr SERVER_PORT
      | Some v \<Rightarrow> int_of_str v)"

section \<open>Instances of the library for closed examples\<close>

text \<open>
  \<open>int\<close> on an ASCII string: blanks are trimmed at both ends, one sign may follow, then
  decimal digits, where single underscores may stand between two digits. The
  interpreter's limit on the number of digits is left out.
\<close>

definition is_space :: "char \<Rightarrow> bool" where
  "is_space c = (c \<in> set [CHR 0x09, CHR 0x0A, CHR 0x0B, CHR 0x0C, CHR 0x0D, CHR '' ''])"

definition strip :: "string \<Rightarrow> string" where
  "strip s = rev (dropWhile is_space (rev (dropWhile is_space s)))"

definition is_digit :: "char \<Rightarrow> bool" where
  "is_digit c = (48 \<le> (of_char c :: nat) \<and> (of_char c :: nat) \<le> 57)"

definition digit_value :: "char \<Rightarrow> nat" where
  "digit_value c = of_char c - 48"

fun more_digits :: "nat \<Rightarrow> string \<Rightarrow> nat option" where
  "more_digits acc [] = Some acc"
| "more_digits acc [c] = (if is_digit c then Some (10 * acc + digit_value c) else None)"
| "more_digits acc (c # d # cs) =
     (if is_digit c then more_digits (10 * acc + digit_value c) (d # cs)
      else if c = CHR ''_'' \<and> is_digit d then more_digits (10 * acc + digit_value d) cs
      else None)"

definition digits :: "string \<Rightarrow> nat option" where
  "digits s = (case s of [] \<Rightarrow> None | c # cs \<Rightarrow> if is_digit c then more_digits (digit_value c) cs else None)"

definition py_int :: "string \<Rightarrow> py_exception + int" where
  "py_int s =
     (case strip s of
        [] \<Rightarrow> Inl ValueError
      | c # cs \<Rightarrow>
          if c = CHR ''-'' then
            (case digits cs of None \<Rightarrow> Inl ValueError | Some n \<Rightarrow> Inr (- int n))
          else if c = CHR ''+'' then
            (case digits cs of None \<Rightarrow> Inl ValueError | Some n \<Rightarrow> Inr (int n))
          else
            (case digits (c # cs) of None \<Rightarrow> Inl ValueError | Some n \<Rightarrow> Inr (int n)))"

text \<open>A stand-in for \<open>float\<close> that agrees with it on the strings that \<open>int\<close> accepts
  and on strings without digits, dots, \<open>inf\<close> or \<open>nan\<close>; it knows no fractions or
  exponents.\<close>

definition float_of_int_literal :: "string \<Rightarrow> py_exception + pyfloat" where
  "float_of_int_literal s = (case py_int s of Inl e \<Rightarrow> Inl e | Inr n \<Rightarrow> Inr (Finite (of_int n)))"

text \<open>
  A stub endpoint: the constructor makes the library's test for a URL type (a nonempty
  run of characters other than \<open>/\<close> and \<open>:\<close>, followed by \<open>:\<close>) and raises
  \<open>ValueError\<close> when there is none; every request is answered with the given status.
\<close>

definition splittype :: "string \<Rightarrow> string option" where
  "splittype url =
     (let scheme = takeWhile (\<lambda>c. c \<noteq> CHR ''/'' \<and> c \<noteq> CHR '':'') url;
          rest = dropWhile (\<lambda>c. c \<noteq> CHR ''/'' \<and> c \<noteq> CHR '':'') url
      in if scheme \<noteq> [] \<and> take 1 rest = '':'' then Some scheme else None)"

definition stub_endpoint :: "nat \<Rightarrow> urllib" where
  "stub_endpoint status =
     \<lparr>Request = (\<lambda>url. case splittype url of None \<Rightarrow> Inl ValueError | Some _ \<Rightarrow> Inr url),
      urlopen = (\<lambda>req timeout. Inr status)\<rparr>"

section \<open>What a run leaves behind\<close>

text \<open>The dictionary the function starts from.\<close>

definition prior_data :: "volume \<Rightarrow> (pystr \<times> json) list" where
  "prior_data vol =
     (case settings_json vol of
        Some (Parses (JObj d)) \<Rightarrow> d
      | _ \<Rightarrow> [])"


text \<open>The rows of a table, none when the table does not exist; the effect of the seeding
  statements on a database.\<close>

definition rows_of :: "('k \<rightharpoonup> 'v) option \<Rightarrow> ('k \<rightharpoonup> 'v)" where
  "rows_of t = (case t of None \<Rightarrow> Map.empty | Some rows \<Rightarrow> rows)"

definition default_if_absent :: "'k \<Rightarrow> 'v \<Rightarrow> ('k \<rightharpoonup> 'v) \<Rightarrow> ('k \<rightharpoonup> 'v)" where
  "default_if_absent k v rows = (case rows k of Some _ \<Rightarrow> rows | None \<Rightarrow> rows(k \<mapsto> v))"

definition seeded :: "database \<Rightarrow> database" where
  "seeded db =
     \<lparr>config_data = Some ((default_if_absent ''Logger'' 0
                             (default_if_absent ''Record'' 1 (rows_of (config_data db))))
                           (''Disclaimer'' \<mapsto> 1)),
      download_data = create_table_if_not_exists {} (download_data db),
      mapping_data = create_table_if_not_exists Map.empty (mapping_data db),
      option_data = Some ((rows_of (option_data db))(''Language'' \<mapsto> ''zh_CN''))\<rparr>"

section \<open>Properties of the settings reconciliation\<close>

lemma then_do_Inr_iff:
  "then_do r f = Inr y \<longleftrightarrow> (\<exists>x. r = Inr x \<and> f x = Inr y)"
  by (cases r) (simp_all add: then_do_def)

lemma then_do_Inr [simp]: "then_do (Inr x) f = f x"
  by (simp add: then_do_def)

lemma then_do_Inl [simp]: "then_do (Inl e) f = Inl e"
  by (simp add: then_do_def)

lemma init_settings_unfold:
  "init_settings vol =
     (let data = AList.update (str ''run_command'') (JStr (str ''7'')) (prior_data vol)
      in if writable (JObj data)
         then Inr (vol\<lparr>settings_json := Some (Parses (JObj data))\<rparr>)
         else Inl UnicodeEncodeError)"
  by (simp add: init_settings_def prior_data_def json_load_def json_dump_def Let_def
      split: option.split content.split json.split)

lemma init_settings_result:
  assumes "init_settings vol = Inr vol'"
  shows "settings_json vol' =
           Some (Parses (JObj (AList.update (str ''run_command'') (JStr (str ''7'')) (prior_data vol))))"
    and "downloader_db vol' = downloader_db vol"
  using assms by (auto simp: init_settings_unfold Let_def split: if_splits)

text \<open>
  Claim C1. Whatever the settings file held before (nothing, a text that does not parse,
  or a document with any value under the forced key), when \<open>init_settings\<close> returns, the
  persisted document maps \<open>run_command\<close> to the string \<open>"7"\<close>.
\<close>

theorem init_settings_forces_run_command:
  assumes "init_settings vol = Inr vol'"
  shows "settings_lookup vol' (str ''run_command'') = Some (JStr (str ''7''))"
  using init_settings_result(1) [OF assms]
  by (simp add: settings_lookup_def update_conv')

theorem init_settings_forces_run_command_witness:
  "init_settings \<lparr>settings_json = Some (Parses (JObj [(str ''run_command'', JInt 3)])),
                  downloader_db = NoFile\<rparr>
     = Inr \<lparr>settings_json = Some (Parses (JObj [(str ''run_command'', JStr (str ''7''))])),
            downloader_db = NoFile\<rparr>
   \<and> settings_lookup \<lparr>settings_json = Some (Parses (JObj [(str ''run_command'', JStr (str ''7''))])),
                       downloader_db = NoFile\<rparr> (str ''run_command'')
     = Some (JStr (str ''7''))"
proof -
  have run: "init_settings \<lparr>settings_json = Some (Parses (JObj [(str ''run_command'', JInt 3)])),
                            downloader_db = NoFile\<rparr>
     = Inr \<lparr>settings_json = Some (Parses (JObj [(str ''run_command'', JStr (str ''7''))])),
            downloader_db = NoFile\<rparr>"
    by (simp add: init_settings_unfold prior_data_def Let_def utf8_encodable_def
        is_surrogate_def str_def)
  show ?thesis
    using run init_settings_forces_run_command [OF run] by simp
qed

text \<open>
  Claim C3. When the settings file parses to a JSON object and \<open>init_settings\<close> returns,
  every key other than \<open>run_command\<close> maps to the value it had before; a document
  holding \<open>foo: "bar"\<close> still holds it afterwards.
\<close>

theorem init_settings_preserves_other_keys:
  assumes "settings_json vol = Some (Parses (JObj d))"
    and "init_settings vol = Inr vol'"
    and "k \<noteq> str ''run_command''"
  shows "settings_lookup vol' k = map_of d k"
proof -
  have "prior_data vol = d"
    using assms(1) by (simp add: prior_data_def)
  with init_settings_result(1) [OF assms(2)] assms(3) show ?thesis
    by (simp add: settings_lookup_def update_conv')
qed

theorem init_settings_preserves_other_keys_witness:
  "settings_json \<lparr>settings_json = Some (Parses (JObj [(str ''foo'', JStr (str ''bar''))])),
                  downloader_db = NoFile\<rparr>
     = Some (Parses (JObj [(str ''foo'', JStr (str ''bar''))]))
   \<and> init_settings \<lparr>settings_json = Some (Parses (JObj [(str ''foo'', JStr (str ''bar''))])),
                    downloader_db = NoFile\<rparr>
     = Inr \<lparr>settings_json = Some (Parses (JObj [(str ''foo'', JStr (str ''bar'')),
                                                    (str ''run_command'', JStr (str ''7''))])),
            downloader_db = NoFile\<rparr>
   \<and> str ''foo'' \<noteq> str ''run_command''
   \<and> settings_lookup \<lparr>settings_json = Some (Parses (JObj [(str ''foo'', JStr (str ''bar'')),
                                                    (str ''run_command'', JStr (str ''7''))])),
                       downloader_db = NoFile\<rparr> (str ''foo'')
     = Some (JStr (str ''bar''))"
proof -
  have doc: "settings_json \<lparr>settings_json = Some (Parses (JObj [(str ''foo'', JStr (str ''bar''))])),
                  downloader_db = NoFile\<rparr>
     = Some (Parses (JObj [(str ''foo'', JStr (str ''bar''))]))"
    by simp
  have run: "init_settings \<lparr>settings_json = Some (Parses (JObj [(str ''foo'', JStr (str ''bar''))])),
                    downloader_db = NoFile\<rparr>
     = Inr \<lparr>settings_json = Some (Parses (JObj [(str ''foo'', JStr (str ''bar'')),
                                                    (str ''run_command'', JStr (str ''7''))])),
            downloader_db = NoFile\<rparr>"
    by (simp add: init_settings_unfold prior_data_def Let_def utf8_encodable_def
        is_surrogate_def str_def)
  have key: "str ''foo'' \<noteq> str ''run_command''"
    by (simp add: str_def)
  show ?thesis
    using doc run key init_settings_preserves_other_keys [OF doc run key] by simp
qed

text \<open>
  Claim C4. When the settings file is absent, does not parse, or parses to a value that
  is not an object, \<open>init_settings\<close> returns: it starts from the empty dictionary and
  persists the object whose only key is \<open>run_command\<close>.
\<close>

theorem init_settings_lenient_recovery:
  assumes "settings_json vol = None
         \<or> settings_json vol = Some Unparsable
         \<or> (\<exists>j. settings_json vol = Some (Parses j) \<and> (\<forall>d. j \<noteq> JObj d))"
  shows "init_settings vol =
           Inr (vol\<lparr>settings_json := Some (Parses (JObj [(str ''run_command'', JStr (str ''7''))]))\<rparr>)"
proof -
  have "prior_data vol = []"
    using assms by (auto simp: prior_data_def split: json.split)
  then show ?thesis
    by (simp add: init_settings_unfold Let_def utf8_encodable_def is_surrogate_def str_def)
qed

theorem init_settings_lenient_recovery_witness:
  "init_settings \<lparr>settings_json = Some Unparsable, downloader_db = NoFile\<rparr>
     = Inr \<lparr>settings_json = Some (Parses (JObj [(str ''run_command'', JStr (str ''7''))])),
            downloader_db = NoFile\<rparr>
   \<and> init_settings \<lparr>settings_json = None, downloader_db = NoFile\<rparr>
     = Inr \<lparr>settings_json = Some (Parses (JObj [(str ''run_command'', JStr (str ''7''))])),
            downloader_db = NoFile\<rparr>
   \<and> init_settings \<lparr>settings_json = Some (Parses (JArr [JInt 1])), downloader_db = NoFile\<rparr>
     = Inr \<lparr>settings_json = Some (Parses (JObj [(str ''run_command'', JStr (str ''7''))])),
            downloader_db = NoFile\<rparr>"
  using init_settings_lenient_recovery
          [of "\<lparr>settings_json = Some Unparsable, downloader_db = NoFile\<rparr>"]
        init_settings_lenient_recovery
          [of "\<lparr>settings_json = None, downloader_db = NoFile\<rparr>"]
        init_settings_lenient_recovery
          [of "\<lparr>settings_json = Some (Parses (JArr [JInt 1])), downloader_db = NoFile\<rparr>"]
  by simp

lemma init_settings_writable:
  assumes "init_settings vol = Inr vol'"
  shows "writable (JObj (AList.update (str ''run_command'') (JStr (str ''7'')) (prior_data vol)))"
  using assms by (auto simp: init_settings_unfold Let_def split: if_splits)

text \<open>A document that already holds the forced value is written back as it is.\<close>

lemma init_settings_fixed:
  assumes "settings_json vol = Some (Parses (JObj d))"
    and "map_of d (str ''run_command'') = Some (JStr (str ''7''))"
    and "writable (JObj d)"
  shows "init_settings vol = Inr vol"
proof -
  have "prior_data vol = d"
    using assms(1) by (simp add: prior_data_def)
  moreover have "AList.update (str ''run_command'') (JStr (str ''7'')) d = d"
    by (rule update_triv [OF assms(2)])
  moreover have "vol\<lparr>settings_json := Some (Parses (JObj d))\<rparr> = vol"
    using assms(1) by (cases vol) simp
  ultimately show ?thesis
    using assms(3) by (simp add: init_settings_unfold Let_def del: writable.simps)
qed

text \<open>A document with a lone surrogate parses, and the write of it raises.\<close>

lemma init_settings_surrogate:
  "init_settings \<lparr>settings_json = Some (Parses (JObj [(str ''foo'', JStr [0xD800])])),
                  downloader_db = NoFile\<rparr> = Inl UnicodeEncodeError"
  by (simp add: init_settings_unfold prior_data_def Let_def utf8_encodable_def
      is_surrogate_def str_def)

section \<open>Properties of the schema initialisation\<close>

lemma rows_of_Some [simp]: "rows_of (Some rows) = rows"
  by (simp add: rows_of_def)

lemma create_rows_of: "create_table_if_not_exists Map.empty t = Some (rows_of t)"
  by (simp add: create_table_if_not_exists_def rows_of_def split: option.split)

lemma create_table_twice [simp]:
  "create_table_if_not_exists e (create_table_if_not_exists e t) = create_table_if_not_exists e t"
  by (simp add: create_table_if_not_exists_def split: option.split)

lemma insert_or_ignore_config [simp]:
  "insert_or_ignore value_check k 1 rows = default_if_absent k 1 rows"
  "insert_or_ignore value_check k 0 rows = default_if_absent k 0 rows"
  by (simp_all add: insert_or_ignore_def value_check_def default_if_absent_def)

lemma default_if_absent_upd: "(default_if_absent k v rows)(k \<mapsto> v') = rows(k \<mapsto> v')"
  by (auto simp: default_if_absent_def split: option.split)

lemma default_if_absent_present: "rows k \<noteq> None \<Longrightarrow> default_if_absent k v rows = rows"
  by (auto simp: default_if_absent_def)

lemma default_if_absent_Some [simp]: "default_if_absent k v rows k \<noteq> None"
  by (auto simp: default_if_absent_def split: option.split)

lemma default_if_absent_mono: "rows k' \<noteq> None \<Longrightarrow> default_if_absent k v rows k' \<noteq> None"
  by (auto simp: default_if_absent_def split: option.split)

text \<open>The table creations and the five seed statements never raise, and leave \<open>seeded db\<close>.\<close>

lemma seed_statements:
  "then_do (config_insert_or_ignore ''Record'' 1 (executescript db)) (\<lambda>db.
   then_do (config_insert_or_ignore ''Logger'' 0 db) (\<lambda>db.
   then_do (config_insert_or_replace ''Disclaimer'' 1 db) (\<lambda>db.
   then_do (option_insert_or_ignore ''Language'' ''zh_CN'' db) (\<lambda>db.
   then_do (option_insert_or_replace ''Language'' ''zh_CN'' db) f)))) = f (seeded db)"
  by (cases db) (simp add: config_insert_or_ignore_def config_insert_or_replace_def
      option_insert_or_ignore_def option_insert_or_replace_def executescript_def
      create_rows_of insert_or_replace_def value_check_def no_check_def seeded_def
      insert_or_ignore_def [of no_check] default_if_absent_upd [unfolded default_if_absent_def]
      split: option.split)

lemma init_database_unfold:
  "init_database vol =
     then_do (connect (downloader_db vol)) (\<lambda>db. Inr (vol\<lparr>downloader_db := Database (seeded db)\<rparr>))"
  unfolding init_database_def seed_statements ..

lemma init_database_result:
  assumes "init_database vol = Inr vol'"
  shows "\<exists>db. connect (downloader_db vol) = Inr db \<and> vol' = vol\<lparr>downloader_db := Database (seeded db)\<rparr>"
  using assms by (auto simp: init_database_unfold then_do_Inr_iff)

text \<open>Only a file that is not a database makes the function raise.\<close>

lemma init_database_returns:
  assumes "downloader_db vol \<noteq> NotADatabase"
  shows "\<exists>vol'. init_database vol = Inr vol'"
  using assms by (cases "downloader_db vol") (simp_all add: init_database_unfold connect_def)

lemma init_database_frame:
  assumes "init_database vol = Inr vol'"
  shows "settings_json vol' = settings_json vol"
  using init_database_result [OF assms] by auto

lemma connect_config:
  assumes "connect (downloader_db vol) = Inr db"
  shows "rows_of (config_data db) name = config_lookup vol name"
  using assms
  by (auto simp: connect_def config_lookup_def rows_of_def split: db_file.splits option.splits)

text \<open>
  Claim C5. Whatever the store held before (also a different value in either row), when
  \<open>init_database\<close> returns, the config row \<open>Disclaimer\<close> has value 1 and the option row
  \<open>Language\<close> has value \<open>zh_CN\<close>.
\<close>

theorem init_database_forced_rows:
  assumes "init_database vol = Inr vol'"
  shows "config_lookup vol' ''Disclaimer'' = Some 1 \<and> option_lookup vol' ''Language'' = Some ''zh_CN''"
  using init_database_result [OF assms]
  by (auto simp: config_lookup_def option_lookup_def seeded_def)

theorem init_database_forced_rows_witness:
  "config_lookup
     \<lparr>settings_json = None,
      downloader_db = Database \<lparr>config_data = Some [''Disclaimer'' \<mapsto> 0], download_data = Some {},
                                 mapping_data = Some Map.empty,
                                 option_data = Some [''Language'' \<mapsto> ''en_US'']\<rparr>\<rparr>
     ''Disclaimer'' = Some 0
   \<and> option_lookup
     \<lparr>settings_json = None,
      downloader_db = Database \<lparr>config_data = Some [''Disclaimer'' \<mapsto> 0], download_data = Some {},
                                 mapping_data = Some Map.empty,
                                 option_data = Some [''Language'' \<mapsto> ''en_US'']\<rparr>\<rparr>
     ''Language'' = Some ''en_US''
   \<and> (\<exists>vol'. init_database
         \<lparr>settings_json = None,
          downloader_db = Database \<lparr>config_data = Some [''Disclaimer'' \<mapsto> 0], download_data = Some {},
                                     mapping_data = Some Map.empty,
                                     option_data = Some [''Language'' \<mapsto> ''en_US'']\<rparr>\<rparr>
         = Inr vol'
       \<and> config_lookup vol' ''Disclaimer'' = Some 1
       \<and> option_lookup vol' ''Language'' = Some ''zh_CN'')"
proof -
  let ?db = "\<lparr>config_data = Some [''Disclaimer'' \<mapsto> 0::int], download_data = Some {},
              mapping_data = Some Map.empty, option_data = Some [''Language'' \<mapsto> ''en_US'']\<rparr>"
  let ?vol = "\<lparr>settings_json = None, downloader_db = Database ?db\<rparr>"
  have run: "init_database ?vol = Inr (?vol\<lparr>downloader_db := Database (seeded ?db)\<rparr>)"
    by (simp add: init_database_unfold connect_def)
  have before: "config_lookup ?vol ''Disclaimer'' = Some 0 \<and> option_lookup ?vol ''Language'' = Some ''en_US''"
    by (simp add: config_lookup_def option_lookup_def)
  show ?thesis
    using before run init_database_forced_rows [OF run] by blast
qed

text \<open>
  Claim C6. When \<open>init_database\<close> returns, the config rows \<open>Record\<close> and \<open>Logger\<close> have
  the value they had before if they existed; the default (1 for \<open>Record\<close>, 0 for
  \<open>Logger\<close>) is there only when no row of that name existed.
\<close>

theorem init_database_default_if_absent:
  assumes "init_database vol = Inr vol'"
  shows "config_lookup vol' ''Record'' =
           (case config_lookup vol ''Record'' of Some x \<Rightarrow> Some x | None \<Rightarrow> Some 1)
       \<and> config_lookup vol' ''Logger'' =
           (case config_lookup vol ''Logger'' of Some x \<Rightarrow> Some x | None \<Rightarrow> Some 0)"
proof -
  obtain db where db: "connect (downloader_db vol) = Inr db"
    and vol': "vol' = vol\<lparr>downloader_db := Database (seeded db)\<rparr>"
    using init_database_result [OF assms] by blast
  have "config_lookup vol' name =
          ((default_if_absent ''Logger'' 0 (default_if_absent ''Record'' 1 (rows_of (config_data db))))
            (''Disclaimer'' \<mapsto> 1)) name" for name
    by (simp add: vol' config_lookup_def seeded_def)
  then show ?thesis
    by (simp add: default_if_absent_def connect_config [OF db, symmetric] split: option.split)
qed

theorem init_database_default_if_absent_witness:
  "config_lookup
     \<lparr>settings_json = None,
      downloader_db = Database \<lparr>config_data = Some [''Record'' \<mapsto> 0], download_data = Some {},
                                 mapping_data = Some Map.empty, option_data = Some Map.empty\<rparr>\<rparr>
     ''Record'' = Some 0
   \<and> config_lookup
     \<lparr>settings_json = None,
      downloader_db = Database \<lparr>config_data = Some [''Record'' \<mapsto> 0], download_data = Some {},
                                 mapping_data = Some Map.empty, option_data = Some Map.empty\<rparr>\<rparr>
     ''Logger'' = None
   \<and> (\<exists>vol'. init_database
         \<lparr>settings_json = None,
          downloader_db = Database \<lparr>config_data = Some [''Record'' \<mapsto> 0], download_data = Some {},
                                     mapping_data = Some Map.empty, option_data = Some Map.empty\<rparr>\<rparr>
         = Inr vol'
       \<and> config_lookup vol' ''Record'' = Some 0
       \<and> config_lookup vol' ''Logger'' = Some 0)"
proof -
  let ?db = "\<lparr>config_data = Some [''Record'' \<mapsto> 0::int], download_data = Some {},
              mapping_data = Some Map.empty, option_data = Some Map.empty\<rparr>"
  let ?vol = "\<lparr>settings_json = None, downloader_db = Database ?db\<rparr>"
  have run: "init_database ?vol = Inr (?vol\<lparr>downloader_db := Database (seeded ?db)\<rparr>)"
    by (simp add: init_database_unfold connect_def)
  have before: "config_lookup ?vol ''Record'' = Some 0 \<and> config_lookup ?vol ''Logger'' = None"
    by (simp add: config_lookup_def)
  have after: "config_lookup (?vol\<lparr>downloader_db := Database (seeded ?db)\<rparr>) ''Record'' = Some 0
             \<and> config_lookup (?vol\<lparr>downloader_db := Database (seeded ?db)\<rparr>) ''Logger'' = Some 0"
    using before init_database_default_if_absent [OF run] by simp
  show ?thesis
    using before run after by blast
qed

text \<open>
  Claim C10. On every database, \<open>INSERT OR IGNORE\<close> of \<open>('Language', 'zh_CN')\<close>
  followed by \<open>INSERT OR REPLACE\<close> of the same row has the result of the
  \<open>INSERT OR REPLACE\<close> alone.
\<close>

theorem locale_pair_redundant:
  "then_do (option_insert_or_ignore ''Language'' ''zh_CN'' db)
     (option_insert_or_replace ''Language'' ''zh_CN'')
   = option_insert_or_replace ''Language'' ''zh_CN'' db"
  by (simp add: option_insert_or_ignore_def option_insert_or_replace_def insert_or_ignore_def
      insert_or_replace_def no_check_def split: option.split)

section \<open>Properties of the boot sequence\<close>

lemma seeded_idem: "seeded (seeded db) = seeded db"
proof -
  let ?r = "default_if_absent ''Logger'' 0 (default_if_absent ''Record'' 1 (rows_of (config_data db)))"
  have rec: "(?r(''Disclaimer'' \<mapsto> 1)) ''Record'' \<noteq> None"
    by (simp add: default_if_absent_mono)
  have 1: "default_if_absent ''Record'' 1 (?r(''Disclaimer'' \<mapsto> 1)) = ?r(''Disclaimer'' \<mapsto> 1)"
    using rec by (simp add: default_if_absent_present)
  have 2: "default_if_absent ''Logger'' 0 (?r(''Disclaimer'' \<mapsto> 1)) = ?r(''Disclaimer'' \<mapsto> 1)"
    by (simp add: default_if_absent_present)
  have c: "rows_of (config_data (seeded db)) = ?r(''Disclaimer'' \<mapsto> 1)"
    and p: "rows_of (option_data (seeded db)) = (rows_of (option_data db))(''Language'' \<mapsto> ''zh_CN'')"
    and d: "download_data (seeded db) = create_table_if_not_exists {} (download_data db)"
    and m: "mapping_data (seeded db) = create_table_if_not_exists Map.empty (mapping_data db)"
    by (simp_all add: seeded_def)
  have "seeded (seeded db) =
          \<lparr>config_data = Some (?r(''Disclaimer'' \<mapsto> 1)),
           download_data = create_table_if_not_exists {} (download_data db),
           mapping_data = create_table_if_not_exists Map.empty (mapping_data db),
           option_data = Some ((rows_of (option_data db))(''Language'' \<mapsto> ''zh_CN''))\<rparr>"
    unfolding seeded_def [of "seeded db"] c p d m 1 2 by simp
  also have "\<dots> = seeded db"
    by (simp add: seeded_def)
  finally show ?thesis .
qed

lemma init_database_idem:
  assumes "init_database vol = Inr vol'"
  shows "init_database vol' = Inr vol'"
proof -
  obtain db where "vol' = vol\<lparr>downloader_db := Database (seeded db)\<rparr>"
    using init_database_result [OF assms] by blast
  then show ?thesis
    by (simp add: init_database_unfold connect_def seeded_idem)
qed

lemma init_settings_after_database:
  assumes "init_settings vol = Inr vol1" and "init_database vol1 = Inr vol2"
  shows "init_settings vol2 = Inr vol2"
proof (rule init_settings_fixed)
  show "settings_json vol2 =
          Some (Parses (JObj (AList.update (str ''run_command'') (JStr (str ''7'')) (prior_data vol))))"
    using init_settings_result(1) [OF assms(1)] init_database_frame [OF assms(2)] by simp
  show "map_of (AList.update (str ''run_command'') (JStr (str ''7'')) (prior_data vol))
          (str ''run_command'') = Some (JStr (str ''7''))"
    by (simp add: update_conv')
  show "writable (JObj (AList.update (str ''run_command'') (JStr (str ''7'')) (prior_data vol)))"
    by (rule init_settings_writable [OF assms(1)])
qed

lemma main_bootstrap:
  "main p = then_do (bootstrap p) (\<lambda>p'. Inr (p', Execvp ''python'' [''python'', ''api_main.py'']))"
  by (simp add: main_def bootstrap_def then_do_def split: sum.split)

text \<open>A fresh volume: the settings document holds the forced key alone, the four tables
  exist, with the seed rows.\<close>

lemma bootstrap_fresh:
  "bootstrap NoEntry =
     Inr (Directory
       \<lparr>settings_json = Some (Parses (JObj [(str ''run_command'', JStr (str ''7''))])),
        downloader_db = Database (seeded \<lparr>config_data = None, download_data = None,
                                          mapping_data = None, option_data = None\<rparr>)\<rparr>)"
  by (simp add: bootstrap_def ensure_volume_def init_settings_unfold prior_data_def Let_def
      utf8_encodable_def is_surrogate_def str_def init_database_unfold connect_def)

text \<open>
  Claim C2. When the boot sequence (\<open>ensure_volume\<close>, \<open>init_settings\<close>,
  \<open>init_database\<close>) has run on a volume, running it again on the volume it left returns
  and leaves the same volume: the same settings document, tables and rows.
\<close>

theorem bootstrap_idempotent:
  assumes "bootstrap p = Inr p'"
  shows "bootstrap p' = Inr p'"
proof -
  obtain vol0 vol1 vol2 where ev: "ensure_volume p = Inr vol0"
    and st: "init_settings vol0 = Inr vol1"
    and dbs: "init_database vol1 = Inr vol2"
    and p': "p' = Directory vol2"
    using assms by (auto simp: bootstrap_def then_do_Inr_iff)
  have "init_settings vol2 = Inr vol2"
    by (rule init_settings_after_database [OF st dbs])
  moreover have "init_database vol2 = Inr vol2"
    by (rule init_database_idem [OF dbs])
  ultimately show ?thesis
    by (simp add: p' bootstrap_def ensure_volume_def)
qed

theorem bootstrap_idempotent_witness:
  "bootstrap NoEntry =
     Inr (Directory
       \<lparr>settings_json = Some (Parses (JObj [(str ''run_command'', JStr (str ''7''))])),
        downloader_db = Database (seeded \<lparr>config_data = None, download_data = None,
                                          mapping_data = None, option_data = None\<rparr>)\<rparr>)
   \<and> bootstrap (Directory
       \<lparr>settings_json = Some (Parses (JObj [(str ''run_command'', JStr (str ''7''))])),
        downloader_db = Database (seeded \<lparr>config_data = None, download_data = None,
                                          mapping_data = None, option_data = None\<rparr>)\<rparr>) =
     Inr (Directory
       \<lparr>settings_json = Some (Parses (JObj [(str ''run_command'', JStr (str ''7''))])),
        downloader_db = Database (seeded \<lparr>config_data = None, download_data = None,
                                          mapping_data = None, option_data = None\<rparr>)\<rparr>)"
  using bootstrap_fresh bootstrap_idempotent [OF bootstrap_fresh] by simp

text \<open>
  Claim C9, as stated: the argument vector of the exec call holds the program name and
  nothing else. On a fresh volume the three steps succeed and the vector has two
  entries.
\<close>

theorem main_argv_counterexample:
  "map_sum id (exec_args \<circ> snd) (main NoEntry) = Inr [''python'', ''api_main.py'']
   \<and> map_sum id (exec_args \<circ> snd) (main NoEntry) \<noteq> Inr [''python'']"
  by (simp add: main_def ensure_volume_def init_settings_unfold prior_data_def Let_def
      utf8_encodable_def is_surrogate_def str_def init_database_unfold connect_def)

text \<open>
  Claim C9, amended. When the three steps succeed, \<open>main\<close> asks for the process image
  to be replaced by \<open>python\<close> with the fixed argument vector \<open>["python", "api_main.py"]\<close>:
  the program name and the entrypoint script, whatever the volume holds.
\<close>

theorem main_handoff:
  assumes "ensure_volume p = Inr vol0"
    and "init_settings vol0 = Inr vol1"
    and "init_database vol1 = Inr vol2"
  shows "main p = Inr (Directory vol2, Execvp ''python'' [''python'', ''api_main.py''])"
  using assms by (simp add: main_def)

theorem main_handoff_witness:
  "main NoEntry =
     Inr (Directory
            \<lparr>settings_json = Some (Parses (JObj [(str ''run_command'', JStr (str ''7''))])),
             downloader_db = Database (seeded \<lparr>config_data = None, download_data = None,
                                               mapping_data = None, option_data = None\<rparr>)\<rparr>,
          Execvp ''python'' [''python'', ''api_main.py''])"
proof -
  let ?vol0 = "\<lparr>settings_json = None, downloader_db = NoFile\<rparr>"
  let ?vol1 = "\<lparr>settings_json = Some (Parses (JObj [(str ''run_command'', JStr (str ''7''))])),
                downloader_db = NoFile\<rparr>"
  let ?vol2 = "\<lparr>settings_json = Some (Parses (JObj [(str ''run_command'', JStr (str ''7''))])),
                downloader_db = Database (seeded \<lparr>config_data = None, download_data = None,
                                                  mapping_data = None, option_data = None\<rparr>)\<rparr>"
  have 0: "ensure_volume NoEntry = Inr ?vol0"
    by (simp add: ensure_volume_def)
  have 1: "init_settings ?vol0 = Inr ?vol1"
    by (simp add: init_settings_unfold prior_data_def Let_def utf8_encodable_def
        is_surrogate_def str_def)
  have 2: "init_database ?vol1 = Inr ?vol2"
    by (simp add: init_database_unfold connect_def)
  show ?thesis
    by (rule main_handoff [OF 0 1 2])
qed

section \<open>Properties of the probe and of the environment overrides\<close>

text \<open>Once the request is constructed, the result is 0 exactly when the response has
  status 200, and 1 for every other status and every exception of the request.\<close>

lemma check_result:
  assumes "Request lib url = Inr req"
  shows "check lib url timeout = Inr (if urlopen lib req timeout = Inr 200 then 0 else 1)"
  using assms by (auto simp: check_def split: sum.split)

text \<open>The constructor is called before the \<open>try\<close>: what it raises leaves \<open>check\<close>.\<close>

lemma check_constructor_raises:
  assumes "Request lib url = Inl e"
  shows "check lib url timeout = Inl e"
  using assms by (simp add: check_def)

text \<open>
  Claim C7. \<open>check\<close> is to return 0 or 1 for every URL. On the empty string, which has no
  URL type, the constructor of the request raises \<open>ValueError\<close> and \<open>check\<close> raises it
  too, even when the endpoint would answer 200.
\<close>

theorem check_unknown_url_type:
  "check (stub_endpoint 200) [] (Finite 2) = Inl ValueError"
  by (simp add: check_def stub_endpoint_def splittype_def)

lemma py_int_abc: "py_int ''abc'' = Inl ValueError"
  by (simp add: py_int_def strip_def is_space_def digits_def is_digit_def)

lemma float_of_int_literal_2: "float_of_int_literal ''2'' = Inr (Finite 2)"
  by (simp add: float_of_int_literal_def py_int_def strip_def is_space_def digits_def is_digit_def digit_value_def)

text \<open>
  Claim C8, as stated: both overrides fall back to the default when the value does not
  parse as a number, and the process goes on. With \<open>PORT=abc\<close>, \<open>int\<close> raises
  \<open>ValueError\<close> in \<open>start_api_only\<close>, and the probe puts \<open>abc\<close> into its URL.
\<close>

theorem port_override_counterexample:
  "py_int ''abc'' = Inl ValueError
   \<and> start_api_only_port py_int 5555 [''PORT'' \<mapsto> ''abc''] = Inl ValueError
   \<and> healthcheck_url [''PORT'' \<mapsto> ''abc''] = ''http://localhost:abc/health''"
  by (simp add: start_api_only_port_def healthcheck_url_def getenv_def py_int_abc)

text \<open>
  Claim C8, amended. For every environment, with \<open>float("2") = 2.0\<close>: the timeout is 2.0
  when \<open>HEALTHCHECK_TIMEOUT\<close> is unset and when \<open>float\<close> rejects its value; when \<open>PORT\<close> is
  unset the probe targets port 5555 and the service takes \<open>SERVER_PORT\<close>; a \<open>PORT\<close> that is
  set is used as it is, in the URL of the probe and as the argument of \<open>int\<close> in the
  service, whose result or exception is that of \<open>int\<close>.
\<close>

theorem env_overrides:
  assumes "float_of_str ''2'' = Inr (Finite 2)"
  shows "(env ''HEALTHCHECK_TIMEOUT'' = None \<longrightarrow> healthcheck_timeout float_of_str env = Finite 2)
       \<and> (\<forall>v e. env ''HEALTHCHECK_TIMEOUT'' = Some v \<and> float_of_str v = Inl e
              \<longrightarrow> healthcheck_timeout float_of_str env = Finite 2)
       \<and> (env ''PORT'' = None
              \<longrightarrow> healthcheck_url env = ''http://localhost:5555/health''
                \<and> start_api_only_port int_of_str SERVER_PORT env = Inr SERVER_PORT)
       \<and> (\<forall>v. env ''PORT'' = Some v
              \<longrightarrow> healthcheck_url env = ''http://localhost:'' @ v @ ''/health''
                \<and> start_api_only_port int_of_str SERVER_PORT env = int_of_str v)"
  using assms
  by (auto simp: healthcheck_timeout_def healthcheck_url_def start_api_only_port_def getenv_def)

theorem env_overrides_witness:
  "float_of_int_literal ''2'' = Inr (Finite 2)
   \<and> healthcheck_timeout float_of_int_literal Map.empty = Finite 2
   \<and> float_of_int_literal ''fast'' = Inl ValueError
   \<and> healthcheck_timeout float_of_int_literal [''HEALTHCHECK_TIMEOUT'' \<mapsto> ''fast''] = Finite 2
   \<and> healthcheck_url Map.empty = ''http://localhost:5555/health''
   \<and> start_api_only_port py_int 5555 Map.empty = Inr 5555
   \<and> healthcheck_url [''PORT'' \<mapsto> ''8080''] = ''http://localhost:8080/health''
   \<and> start_api_only_port py_int 5555 [''PORT'' \<mapsto> ''8080''] = Inr 8080"
proof -
  have two: "float_of_int_literal ''2'' = Inr (Finite 2)"
    by (rule float_of_int_literal_2)
  have fast: "float_of_int_literal ''fast'' = Inl ValueError"
    by (simp add: float_of_int_literal_def py_int_def strip_def is_space_def digits_def is_digit_def)
  have port: "py_int ''8080'' = Inr 8080"
    by (simp add: py_int_def strip_def is_space_def digits_def is_digit_def digit_value_def)
  show ?thesis
    using two fast port
      env_overrides [where float_of_str = float_of_int_literal and env = Map.empty
                       and int_of_str = py_int and SERVER_PORT = 5555, OF two]
      env_overrides [where float_of_str = float_of_int_literal
                       and env = "[''HEALTHCHECK_TIMEOUT'' \<mapsto> ''fast'']"
                       and int_of_str = py_int and SERVER_PORT = 5555, OF two]
      env_overrides [where float_of_str = float_of_int_literal and env = "[''PORT'' \<mapsto> ''8080'']"
                       and int_of_str = py_int and SERVER_PORT = 5555, OF two]
    by simp
qed

end
